theory Spec2Isabelle
  imports Complex_Main
begin

section \<open>Data model\<close>

text \<open>
  The failures the routes and the credential function build or inspect. The source
  distinguishes them by a numeric \<open>errno\<close> field on a duck-typed object
  (\<open>err.errno === errors.ERRNO.TOTP_TOKEN_NOT_FOUND\<close>); here each is a constructor and
  the comparison is constructor equality. \<open>InvalidToken\<close> carries the message given to
  \<open>error.invalidToken\<close>. \<open>OtherError\<close> stands for every failure of a collaborator
  (rate limiter, store, renderer, signer) that the handlers only pass along.
\<close>

datatype error =
    UnverifiedSession
  | TotpTokenNotFound
  | InvalidToken string
  | OtherError string

text \<open>
  A bearer token as the handlers read it from \<open>request.auth.credentials\<close> and as the
  credential function receives it from the store. \<open>tokenId\<close> is the source's \<open>id\<close>.
  \<open>expiresAt\<close> is absent for a token that never expires.
\<close>

record token =
  tokenId :: string
  uid :: string
  tokenTypeID :: string
  email :: string
  tokenVerificationId :: "string option"
  expiresAt :: "int option"
  verifierSetAt :: int
  lastAuthAt :: int

record totp_token =
  sharedSecret :: string
  verified :: bool
  enabled :: bool
  epoch :: nat

record request =
  credentials :: token
  payload_code :: string

text \<open>
  Every call that leaves the handler is recorded, in order: log lines, the rate-limit
  check, the metrics event and each Token Store call with its arguments.
\<close>

datatype event =
    LogBegin string
  | LogTrace string string
  | LogSkew "rat option"
  | LogInfo string string
  | EmitMetricsEvent string string
  | CustomsCheck string
  | DbCreateTotpToken string string nat
  | DbDeleteTotpToken string
  | DbTotpToken string
  | DbUpdateTotpToken string bool bool
  | DbVerifyTokensWithMethod string string
  | DbPruneSessionTokens string "string list"

text \<open>
  The state outside the handler: the TOTP table keyed by uid, the sessions that were
  marked verified together with the method, and the record of calls.
\<close>

record world =
  totp :: "string \<rightharpoonup> totp_token"
  verifiedSessions :: "(string \<times> string) list"
  trace :: "event list"

text \<open>
  The collaborators and configuration a handler is closed over. \<open>customs_check\<close> is the
  outcome of \<open>customs.check(request, action)\<close> (\<open>None\<close> when the request may go on);
  \<open>db_fault\<close> says which Token Store calls fail for a reason of the store's own;
  \<open>deleteMissingSignalsNotFound\<close> says whether the store rejects the deletion of an
  absent TOTP token; \<open>authenticator_check\<close> is \<open>otplib.authenticator.check\<close>;
  \<open>generateSecret\<close> is the secret drawn for this request; \<open>keyuri\<close> and \<open>toDataURL\<close>
  are the provisioning URI and its rendering; \<open>emitMetricsEvent_fault\<close> says whether
  \<open>request.emitMetricsEvent\<close> rejects; \<open>HEX_STRING_test\<close> is \<open>HEX_STRING.test\<close> of the
  validators module, which is not among the sources; \<open>db_token\<close> is the store accessor
  bound to each authentication strategy (\<open>db.sessionToken\<close>, \<open>db.keyFetchToken\<close>, ...),
  a read of the store that resolves to a token or rejects.
\<close>

datatype strategy =
    SessionTokenStrategy
  | KeyFetchTokenStrategy
  | KeyFetchTokenWithVerificationStatusStrategy
  | AccountResetTokenStrategy
  | PasswordForgotTokenStrategy
  | PasswordChangeTokenStrategy

record env =
  customs_check :: "request \<Rightarrow> string \<Rightarrow> error option"
  db_fault :: "event \<Rightarrow> error option"
  deleteMissingSignalsNotFound :: bool
  authenticator_check :: "string \<Rightarrow> string \<Rightarrow> bool"
  generateSecret :: string
  keyuri :: "string \<Rightarrow> string \<Rightarrow> string \<Rightarrow> string"
  toDataURL :: "string \<Rightarrow> error + string"
  emitMetricsEvent_fault :: "string \<Rightarrow> error option"
  serviceName :: string
  HEX_STRING_test :: "string \<Rightarrow> bool"
  db_token :: "strategy \<Rightarrow> string \<Rightarrow> error + token"

text \<open>What a route hands to \<open>reply\<close>, one constructor per response shape.\<close>

datatype body =
    CreateBody string string
  | EmptyBody
  | ExistsBody bool
  | SuccessBody bool

text \<open>
  How a handler ends: \<open>reply(body)\<close>, \<open>reply(err)\<close>, or an exception thrown out of the
  handler function itself before any promise exists to catch it. In the last case
  \<open>reply\<close> is never called; what the caller then receives is decided by the framework,
  outside these sources.
\<close>

datatype outcome =
    Reply body
  | ReplyError error
  | Thrown error

section \<open>Promises\<close>

text \<open>
  A promise is a computation over the world that settles with a value or a rejection.
  \<open>then_p p f\<close> is \<open>p.then(f)\<close>: a rejection skips \<open>f\<close>.
  \<open>reply_p\<close> is the final \<open>.then(() => reply(body), reply)\<close>.
\<close>

type_synonym 'a promise = "world \<Rightarrow> (error + 'a) \<times> world"

definition resolve :: "'a \<Rightarrow> 'a promise" where
  "resolve x w = (Inr x, w)"

definition reject :: "error \<Rightarrow> 'a promise" where
  "reject e w = (Inl e, w)"

definition then_p :: "'a promise \<Rightarrow> ('a \<Rightarrow> 'b promise) \<Rightarrow> 'b promise" where
  "then_p p f w = (case p w of (Inl e, w') \<Rightarrow> (Inl e, w') | (Inr x, w') \<Rightarrow> f x w')"

definition reply_p :: "body promise \<Rightarrow> world \<Rightarrow> outcome \<times> world" where
  "reply_p p w = (case p w of (Inl e, w') \<Rightarrow> (ReplyError e, w') | (Inr b, w') \<Rightarrow> (Reply b, w'))"

definition record_event :: "event \<Rightarrow> world \<Rightarrow> world" where
  "record_event ev w = w\<lparr>trace := trace w @ [ev]\<rparr>"

text \<open>JavaScript truthiness of a nullable string: \<open>null\<close>, \<open>undefined\<close> and \<open>''\<close> are falsy.\<close>

definition truthy :: "string option \<Rightarrow> bool" where
  "truthy v = (case v of None \<Rightarrow> False | Some s \<Rightarrow> s \<noteq> [])"

section \<open>Collaborators\<close>

definition customs_check_p :: "env \<Rightarrow> request \<Rightarrow> string \<Rightarrow> unit promise" where
  "customs_check_p e request action w =
     (let w' = record_event (CustomsCheck action) w
      in case customs_check e request action of
           Some err \<Rightarrow> (Inl err, w')
         | None \<Rightarrow> (Inr (), w'))"

definition log_begin :: "string \<Rightarrow> world \<Rightarrow> world" where
  "log_begin op w = record_event (LogBegin op) w"

definition log_info :: "string \<Rightarrow> string \<Rightarrow> world \<Rightarrow> world" where
  "log_info op u w = record_event (LogInfo op u) w"

definition emitMetricsEvent :: "env \<Rightarrow> string \<Rightarrow> string \<Rightarrow> unit promise" where
  "emitMetricsEvent e name u w =
     (let w' = record_event (EmitMetricsEvent name u) w
      in case emitMetricsEvent_fault e name of
           Some err \<Rightarrow> (Inl err, w')
         | None \<Rightarrow> (Inr (), w'))"

subsection \<open>Token Store\<close>

text \<open>
  Modelled from the spec: the Token Store (\<open>db.createTotpToken\<close>) is not among the
  sources. Create persists a new TotpToken for the uid with \<open>verified = false\<close> and
  \<open>enabled = false\<close> and the given epoch; a failure of the store surfaces to the caller.
\<close>

definition db_createTotpToken :: "env \<Rightarrow> string \<Rightarrow> string \<Rightarrow> nat \<Rightarrow> unit promise" where
  "db_createTotpToken e u secret ep w =
     (let call = DbCreateTotpToken u secret ep; w' = record_event call w
      in case db_fault e call of
           Some err \<Rightarrow> (Inl err, w')
         | None \<Rightarrow>
             (Inr (), w'\<lparr>totp := (totp w')(u \<mapsto>
                \<lparr>sharedSecret = secret, verified = False, enabled = False, epoch = ep\<rparr>)\<rparr>))"

text \<open>
  Modelled from the spec: the Token Store (\<open>db.deleteTotpToken\<close>) is not among the
  sources. Delete removes the uid's TotpToken; for an absent token the store may signal
  not-found, which is the environment's \<open>deleteMissingSignalsNotFound\<close>.
\<close>

definition db_deleteTotpToken :: "env \<Rightarrow> string \<Rightarrow> unit promise" where
  "db_deleteTotpToken e u w =
     (let call = DbDeleteTotpToken u; w' = record_event call w
      in case db_fault e call of
           Some err \<Rightarrow> (Inl err, w')
         | None \<Rightarrow>
             (if totp w' u = None \<and> deleteMissingSignalsNotFound e
              then (Inl TotpTokenNotFound, w')
              else (Inr (), w'\<lparr>totp := (totp w')(u := None)\<rparr>)))"

text \<open>
  Modelled from the spec: the Token Store (\<open>db.totpToken\<close>) is not among the sources.
  Lookup returns the uid's TotpToken, or the not-found failure that the existence check
  compares against \<open>errors.ERRNO.TOTP_TOKEN_NOT_FOUND\<close>.
\<close>

definition db_totpToken :: "env \<Rightarrow> string \<Rightarrow> totp_token promise" where
  "db_totpToken e u w =
     (let call = DbTotpToken u; w' = record_event call w
      in case db_fault e call of
           Some err \<Rightarrow> (Inl err, w')
         | None \<Rightarrow>
             (case totp w' u of
                None \<Rightarrow> (Inl TotpTokenNotFound, w')
              | Some t \<Rightarrow> (Inr t, w')))"

text \<open>
  Modelled from the spec: the Token Store (\<open>db.updateTotpToken\<close>) is not among the
  sources. Update sets the \<open>verified\<close> and \<open>enabled\<close> fields of the uid's TotpToken in
  one step and leaves its other fields. The spec does not say what the store does when the
  token is absent; here it signals not-found, and no theorem below depends on that case.
\<close>

definition db_updateTotpToken :: "env \<Rightarrow> string \<Rightarrow> bool \<Rightarrow> bool \<Rightarrow> unit promise" where
  "db_updateTotpToken e u v en w =
     (let call = DbUpdateTotpToken u v en; w' = record_event call w
      in case db_fault e call of
           Some err \<Rightarrow> (Inl err, w')
         | None \<Rightarrow>
             (case totp w' u of
                None \<Rightarrow> (Inl TotpTokenNotFound, w')
              | Some t \<Rightarrow>
                  (Inr (), w'\<lparr>totp := (totp w')(u \<mapsto> t\<lparr>verified := v, enabled := en\<rparr>)\<rparr>)))"

text \<open>
  Modelled from the spec: the Token Store (\<open>db.verifyTokensWithMethod\<close>) is not among
  the sources. It marks the session with the given id as verified by the given method.
\<close>

definition db_verifyTokensWithMethod :: "env \<Rightarrow> string \<Rightarrow> string \<Rightarrow> unit promise" where
  "db_verifyTokensWithMethod e sid method w =
     (let call = DbVerifyTokensWithMethod sid method; w' = record_event call w
      in case db_fault e call of
           Some err \<Rightarrow> (Inl err, w')
         | None \<Rightarrow> (Inr (), w'\<lparr>verifiedSessions := verifiedSessions w' @ [(sid, method)]\<rparr>))"

text \<open>
  Modelled from the spec: the Token Store (\<open>db.pruneSessionTokens\<close>) is not among the
  sources. It is asked to prune the given tokens of the user; the attempt may fail.
\<close>

definition db_pruneSessionTokens :: "env \<Rightarrow> string \<Rightarrow> token list \<Rightarrow> unit promise" where
  "db_pruneSessionTokens e u toks w =
     (let call = DbPruneSessionTokens u (map tokenId toks); w' = record_event call w
      in case db_fault e call of
           Some err \<Rightarrow> (Inl err, w')
         | None \<Rightarrow> (Inr (), w'))"

text \<open>The store calls that change the store.\<close>

fun is_mutation :: "event \<Rightarrow> bool" where
  "is_mutation (DbCreateTotpToken u s ep) = True"
| "is_mutation (DbDeleteTotpToken u) = True"
| "is_mutation (DbUpdateTotpToken u v en) = True"
| "is_mutation (DbVerifyTokensWithMethod sid m) = True"
| "is_mutation (DbPruneSessionTokens u ids) = True"
| "is_mutation ev = False"

section \<open>TOTP routes\<close>

subsection \<open>POST /totp/create\<close>

definition createTotpToken :: "env \<Rightarrow> token \<Rightarrow> string \<Rightarrow> unit promise" where
  "createTotpToken e sessionToken secret =
     (if truthy (tokenVerificationId sessionToken)
      then reject UnverifiedSession
      else db_createTotpToken e (uid sessionToken) secret 0)"

definition create_emitMetrics :: "env \<Rightarrow> string \<Rightarrow> unit promise" where
  "create_emitMetrics e u w =
     emitMetricsEvent e ''totpToken.created'' u (log_info ''totpToken.created'' u w)"

definition createResponse :: "env \<Rightarrow> token \<Rightarrow> string \<Rightarrow> body promise" where
  "createResponse e sessionToken secret w =
     (let otpauth = keyuri e (email sessionToken) (serviceName e) secret
      in case toDataURL e otpauth of
           Inl err \<Rightarrow> (Inl err, w)
         | Inr qrCodeUrl \<Rightarrow> (Inr (CreateBody qrCodeUrl secret), w))"

text \<open>
  The secret is drawn by \<open>otplib.authenticator.generateSecret()\<close> while the rate-limit
  check is pending; it touches neither the store nor the logs and is an input here.
\<close>

definition totp_create :: "env \<Rightarrow> request \<Rightarrow> world \<Rightarrow> outcome \<times> world" where
  "totp_create e request w =
     (let sessionToken = credentials request;
          secret = generateSecret e
      in reply_p
           (then_p (customs_check_p e request ''totpCreate'') (\<lambda>_.
            then_p (createTotpToken e sessionToken secret) (\<lambda>_.
            then_p (create_emitMetrics e (uid sessionToken)) (\<lambda>_.
            createResponse e sessionToken secret))))
           (log_begin ''totp.create'' w))"

subsection \<open>POST /totp/destroy\<close>

definition deleteTotpToken :: "env \<Rightarrow> token \<Rightarrow> unit promise" where
  "deleteTotpToken e sessionToken =
     (if truthy (tokenVerificationId sessionToken)
      then reject UnverifiedSession
      else db_deleteTotpToken e (uid sessionToken))"

definition totp_destroy :: "env \<Rightarrow> request \<Rightarrow> world \<Rightarrow> outcome \<times> world" where
  "totp_destroy e request w =
     (let sessionToken = credentials request
      in reply_p
           (then_p (customs_check_p e request ''totpDestroy'') (\<lambda>_.
            then_p (deleteTotpToken e sessionToken) (\<lambda>_.
            resolve EmptyBody)))
           (log_begin ''totp.destroy'' w))"

subsection \<open>GET /totp/exists\<close>

text \<open>
  \<open>getTotpToken\<close> is called directly by the handler, so its guard throws out of the
  handler (\<open>Inl\<close> of the outer sum) instead of rejecting a promise. The rejection
  callback of \<open>db.totpToken(...).then(ok, failed)\<close> sees only the failures of the
  lookup: a failure of the deletion inside \<open>ok\<close> rejects the resulting promise.
  The promise settles with the final value of the variable \<open>exists\<close>.
\<close>

definition exists_getTotpToken :: "env \<Rightarrow> token \<Rightarrow> error + bool promise" where
  "exists_getTotpToken e sessionToken =
     (if truthy (tokenVerificationId sessionToken)
      then Inl UnverifiedSession
      else Inr (\<lambda>w.
        case db_totpToken e (uid sessionToken) w of
          (Inr tok, w') \<Rightarrow>
            (if \<not> verified tok
             then then_p (db_deleteTotpToken e (uid sessionToken)) (\<lambda>_. resolve False) w'
             else (Inr True, w'))
        | (Inl err, w') \<Rightarrow>
            (if err = TotpTokenNotFound
             then (Inr False, w')
             else (Inl err, w'))))"

definition totp_exists :: "env \<Rightarrow> request \<Rightarrow> world \<Rightarrow> outcome \<times> world" where
  "totp_exists e request w =
     (let sessionToken = credentials request;
          w1 = log_begin ''totp.exists'' w
      in case exists_getTotpToken e sessionToken of
           Inl err \<Rightarrow> (Thrown err, w1)
         | Inr p \<Rightarrow> reply_p (then_p p (\<lambda>ex. resolve (ExistsBody ex))) w1)"

subsection \<open>POST /session/verify/totp\<close>

definition verifyTotpToken :: "env \<Rightarrow> token \<Rightarrow> bool \<Rightarrow> bool \<Rightarrow> unit promise" where
  "verifyTotpToken e sessionToken isValidCode tokenVerified =
     (if isValidCode \<and> \<not> tokenVerified
      then db_updateTotpToken e (uid sessionToken) True True
      else resolve ())"

definition verifySession :: "env \<Rightarrow> token \<Rightarrow> bool \<Rightarrow> unit promise" where
  "verifySession e sessionToken isValidCode =
     (if isValidCode \<and> truthy (tokenVerificationId sessionToken)
      then db_verifyTokensWithMethod e (tokenId sessionToken) ''totp-2fa''
      else resolve ())"

text \<open>
  This \<open>emitMetrics\<close> does not return the promise of \<open>request.emitMetricsEvent\<close>, so a
  rejection of it never reaches the chain.
\<close>

definition verify_emitMetrics :: "env \<Rightarrow> string \<Rightarrow> bool \<Rightarrow> unit promise" where
  "verify_emitMetrics e u isValidCode w =
     (if isValidCode
      then (Inr (), snd (emitMetricsEvent e ''totpToken.verified'' u
                           (log_info ''totp.verified'' u w)))
      else (Inr (), snd (emitMetricsEvent e ''totpToken.unverified'' u
                           (log_info ''totp.unverified'' u w))))"

definition session_verify_totp :: "env \<Rightarrow> request \<Rightarrow> world \<Rightarrow> outcome \<times> world" where
  "session_verify_totp e request w =
     (let code = payload_code request;
          sessionToken = credentials request
      in reply_p
           (then_p (customs_check_p e request ''sessionVerifyTotp'') (\<lambda>_.
            then_p (db_totpToken e (uid sessionToken)) (\<lambda>tok.
              let sharedSecret = sharedSecret tok;
                  tokenVerified = verified tok;
                  isValidCode = authenticator_check e code sharedSecret
              in then_p (verifyTotpToken e sessionToken isValidCode tokenVerified) (\<lambda>_.
                 then_p (verifySession e sessionToken isValidCode) (\<lambda>_.
                 then_p (verify_emitMetrics e (uid sessionToken) isValidCode) (\<lambda>_.
                 resolve (SuccessBody isValidCode)))))))
           (log_begin ''session.verify.totp'' w))"

text \<open>
  A sequence of verification requests, each with the collaborators as they behave at
  that moment (rate limiter, clock of the code check), run one after the other.
\<close>

fun verify_attempts :: "(env \<times> request) list \<Rightarrow> world \<Rightarrow> outcome list \<times> world" where
  "verify_attempts [] w = ([], w)"
| "verify_attempts ((e, r) # rest) w =
     (case session_verify_totp e r w of
        (out, w') \<Rightarrow> (case verify_attempts rest w' of (outs, w'') \<Rightarrow> (out # outs, w'')))"

text \<open>The calls a handler added to the record.\<close>

definition new_events :: "world \<Rightarrow> world \<Rightarrow> event list" where
  "new_events w w' = drop (length (trace w)) (trace w')"

fun is_totp_update :: "event \<Rightarrow> bool" where
  "is_totp_update (DbUpdateTotpToken u v en) = True"
| "is_totp_update ev = False"

fun is_session_verification :: "event \<Rightarrow> bool" where
  "is_session_verification (DbVerifyTokensWithMethod sid m) = True"
| "is_session_verification ev = False"

fun is_customs_check :: "event \<Rightarrow> bool" where
  "is_customs_check (CustomsCheck a) = True"
| "is_customs_check ev = False"

section \<open>Credential function of the server\<close>

text \<open>
  Modelled from the spec: the token's \<open>expired\<close> method is not among the sources. The
  expiry check compares \<open>now\<close> against the token's expiry; a token without an expiry
  never expires. A token is taken as expired when its expiry time is before \<open>now\<close>.
\<close>

definition expired :: "token \<Rightarrow> int \<Rightarrow> bool" where
  "expired tok now = (case expiresAt tok of None \<Rightarrow> False | Some t \<Rightarrow> t < now)"

text \<open>
  The arguments the credential function passes to Hawk's callback: \<open>cb(null, null)\<close>,
  \<open>cb(err)\<close> or \<open>cb(null, token)\<close>.
\<close>

datatype cb_args = Cb "error option" "token option"

definition makeCredentialFn ::
  "env \<Rightarrow> (string \<Rightarrow> error + token) \<Rightarrow> int \<Rightarrow> string \<Rightarrow> world \<Rightarrow> cb_args \<times> world" where
  "makeCredentialFn e dbGetFn now ident w =
     (let w1 = record_event (LogTrace ''DB.getToken'' ident) w
      in if \<not> HEX_STRING_test e ident
         then (Cb None None, w1)
         else
           (case dbGetFn ident of
              Inr tok \<Rightarrow>
                (if expired tok now
                 then
                   (let err = InvalidToken ''The authentication token has expired''
                    in if tokenTypeID tok = ''sessionToken''
                       then (case db_pruneSessionTokens e (uid tok) [tok] w1 of
                               (_, w2) \<Rightarrow> (Cb (Some err) None, w2))
                       else (Cb (Some err) None, w1))
                 else (Cb None (Some tok), w1))
            | Inl err \<Rightarrow> (Cb (Some err) None, w1)))"

text \<open>\<open>getCredentialsFunc\<close> of the Hawk strategy registered under each name.\<close>

definition getCredentialsFunc ::
  "env \<Rightarrow> strategy \<Rightarrow> int \<Rightarrow> string \<Rightarrow> world \<Rightarrow> cb_args \<times> world" where
  "getCredentialsFunc e s = makeCredentialFn e (db_token e s)"

text \<open>
  \<open>nonceFunc\<close> of the Hawk options. \<open>ts\<close> is the numeric value of \<open>+ts\<close>, \<open>None\<close> when it
  is not a number; \<open>now\<close> is \<open>Date.now()\<close>. The skew is computed over the rationals, not
  over doubles. The result is the argument of \<open>cb()\<close>: no error.
\<close>

definition nonceCheck ::
  "string \<Rightarrow> string \<Rightarrow> rat option \<Rightarrow> int \<Rightarrow> world \<Rightarrow> error option \<times> world" where
  "nonceCheck key nonce ts now w =
     (let skew = (case ts of None \<Rightarrow> None | Some t \<Rightarrow> Some (of_int now / 1000 - t))
      in (None, record_event (LogSkew skew) w))"

section \<open>Assertion minting\<close>



record cert_request =
  cr_publicKey :: string
  cr_email :: string
  cr_domain :: string
  cr_duration :: int
  cr_generation :: int
  cr_lastAuthAt :: int
  cr_verifiedEmail :: string

record assertion_claims =
  claim_exp :: int
  claim_aud :: string

text \<open>
  The configuration and keys the minter is closed over: \<open>signer_sign\<close> is \<open>signer.sign\<close>,
  resolving to the certificate (\<open>res.cert\<close>); \<open>secretKey_sign\<close> signs the claims with the
  local key.
\<close>

record mint_config =
  domain :: string
  oauth_url :: string
  publicKey_json :: string
  signer_sign :: "cert_request \<Rightarrow> error + string"
  secretKey_sign :: "assertion_claims \<Rightarrow> error + string"







section \<open>Example inputs\<close>

text \<open>
  Modelled from the spec: \<open>validators.HEX_STRING\<close> is not among the sources; the spec
  says only that it is a fixed-length hexadecimal pattern. The length is a parameter.
\<close>

definition hex_string_of_length :: "nat \<Rightarrow> string \<Rightarrow> bool" where
  "hex_string_of_length n s =
     (length s = n \<and> list_all (\<lambda>c. c \<in> set ''0123456789abcdefABCDEF'') s)"

definition ex_session :: token where
  "ex_session =
     \<lparr>tokenId = ''a1b2c3d4'', uid = ''u1'', tokenTypeID = ''sessionToken'',
      email = ''user@example.com'', tokenVerificationId = None, expiresAt = Some 1000,
      verifierSetAt = 10, lastAuthAt = 20\<rparr>"

definition ex_pending_session :: token where
  "ex_pending_session = ex_session\<lparr>tokenVerificationId := Some ''f00d''\<rparr>"

definition ex_keyFetchToken :: token where
  "ex_keyFetchToken = ex_session\<lparr>tokenId := ''0badcafe'', tokenTypeID := ''keyFetchToken''\<rparr>"

definition ex_env :: env where
  "ex_env =
     \<lparr>customs_check = (\<lambda>r a. None),
      db_fault = (\<lambda>c. None),
      deleteMissingSignalsNotFound = False,
      authenticator_check = (\<lambda>code secret. code = ''123456'' \<and> secret = ''3132''),
      generateSecret = ''3132'',
      keyuri = (\<lambda>mail service secret. ''otpauth://totp/'' @ service @ '':'' @ mail @ ''?secret='' @ secret),
      toDataURL = (\<lambda>s. Inr (''data:image/png;base64,'' @ s)),
      emitMetricsEvent_fault = (\<lambda>n. None),
      serviceName = ''accounts'',
      HEX_STRING_test = hex_string_of_length 8,
      db_token = (\<lambda>s i.
        if s = SessionTokenStrategy \<and> i = ''a1b2c3d4'' then Inr ex_session
        else if s = KeyFetchTokenStrategy \<and> i = ''0badcafe'' then Inr ex_keyFetchToken
        else Inl (OtherError ''no such token''))\<rparr>"

definition ex_world :: world where
  "ex_world = \<lparr>totp = Map.empty, verifiedSessions = [], trace = []\<rparr>"

definition ex_pending_totp :: totp_token where
  "ex_pending_totp = \<lparr>sharedSecret = ''3132'', verified = False, enabled = False, epoch = 0\<rparr>"

definition ex_world_pending :: world where
  "ex_world_pending = ex_world\<lparr>totp := [''u1'' \<mapsto> ex_pending_totp]\<rparr>"

definition ex_world_verified :: world where
  "ex_world_verified =
     ex_world\<lparr>totp := [''u1'' \<mapsto> ex_pending_totp\<lparr>verified := True, enabled := True\<rparr>]\<rparr>"

definition ex_mint_config :: mint_config where
  "ex_mint_config =
     \<lparr>domain = ''example.com'', oauth_url = ''https://oauth.example.com'',
      publicKey_json = ''{}'',
      signer_sign = (\<lambda>rq. Inr ''cert''),
      secretKey_sign = (\<lambda>c. Inr ''assertion'')\<rparr>"

definition ex_request :: request where
  "ex_request = \<lparr>credentials = ex_session, payload_code = ''123456''\<rparr>"

definition ex_pending_request :: request where
  "ex_pending_request = \<lparr>credentials = ex_pending_session, payload_code = ''123456''\<rparr>"

definition ex_wrong_request :: request where
  "ex_wrong_request = \<lparr>credentials = ex_session, payload_code = ''000000''\<rparr>"

definition ex_env_strict_delete :: env where
  "ex_env_strict_delete = ex_env\<lparr>deleteMissingSignalsNotFound := True\<rparr>"

definition ex_env_blocked :: env where
  "ex_env_blocked = ex_env\<lparr>customs_check := (\<lambda>r a. Some (OtherError ''Client has sent too many requests''))\<rparr>"

definition ex_env_prune_fails :: env where
  "ex_env_prune_fails =
     ex_env\<lparr>db_fault := (\<lambda>c. case c of
        DbPruneSessionTokens u ids \<Rightarrow> Some (OtherError ''store unreachable'')
      | _ \<Rightarrow> None)\<rparr>"


section \<open>Unfolding rules\<close>

lemmas promise_defs = resolve_def reject_def then_p_def reply_p_def record_event_def
  customs_check_p_def log_begin_def log_info_def emitMetricsEvent_def

lemmas store_defs = db_createTotpToken_def db_deleteTotpToken_def db_totpToken_def
  db_updateTotpToken_def db_verifyTokensWithMethod_def db_pruneSessionTokens_def

lemmas route_defs = createTotpToken_def create_emitMetrics_def createResponse_def
  totp_create_def deleteTotpToken_def totp_destroy_def exists_getTotpToken_def
  totp_exists_def verifyTotpToken_def verifySession_def verify_emitMetrics_def
  session_verify_totp_def

lemmas example_defs = ex_session_def ex_pending_session_def ex_keyFetchToken_def ex_env_def
  ex_world_def ex_pending_totp_def ex_world_pending_def ex_world_verified_def
  ex_mint_config_def hex_string_of_length_def ex_request_def ex_pending_request_def
  ex_wrong_request_def ex_env_strict_delete_def ex_env_blocked_def

section \<open>The existence check reaps unverified tokens\<close>

lemma exists_absent:
  assumes "\<not> truthy (tokenVerificationId (credentials r))"
    and "\<forall>c. db_fault e c = None"
    and "totp w (uid (credentials r)) = None"
  shows "totp_exists e r w =
           (Reply (ExistsBody False),
            w\<lparr>trace := trace w @ [LogBegin ''totp.exists'', DbTotpToken (uid (credentials r))]\<rparr>)"
  using assms by (simp add: route_defs promise_defs store_defs Let_def)

lemma exists_unverified:
  assumes "\<not> truthy (tokenVerificationId (credentials r))"
    and "\<forall>c. db_fault e c = None"
    and "totp w (uid (credentials r)) = Some t" and "\<not> verified t"
  shows "totp_exists e r w =
           (Reply (ExistsBody False),
            w\<lparr>totp := (totp w)(uid (credentials r) := None),
              trace := trace w @ [LogBegin ''totp.exists'', DbTotpToken (uid (credentials r)),
                                  DbDeleteTotpToken (uid (credentials r))]\<rparr>)"
  using assms by (simp add: route_defs promise_defs store_defs Let_def)

lemma exists_verified:
  assumes "\<not> truthy (tokenVerificationId (credentials r))"
    and "\<forall>c. db_fault e c = None"
    and "totp w (uid (credentials r)) = Some t" and "verified t"
  shows "totp_exists e r w =
           (Reply (ExistsBody True),
            w\<lparr>trace := trace w @ [LogBegin ''totp.exists'', DbTotpToken (uid (credentials r))]\<rparr>)"
  using assms by (simp add: route_defs promise_defs store_defs Let_def)

lemma create_reply_stores_pending:
  assumes "fst (totp_create e r w) = Reply b"
  shows "\<exists>t. totp (snd (totp_create e r w)) (uid (credentials r)) = Some t \<and> \<not> verified t"
  using assms
  by (auto simp add: route_defs promise_defs store_defs Let_def
      split: if_splits option.splits sum.splits prod.splits)

text \<open>
  Claim C1. For a user whose session is verified (no \<open>tokenVerificationId\<close>) and a Token
  Store that answers, the existence check replies \<open>exists = false\<close> when no TotpToken is
  stored, making only the lookup; when the stored TotpToken has \<open>verified = false\<close> it
  deletes the token and replies \<open>exists = false\<close>; when the stored TotpToken has
  \<open>verified = true\<close> it replies \<open>exists = true\<close> and leaves the store as it was. A
  successful Create followed by the check therefore replies \<open>exists = false\<close> and leaves
  no TotpToken, and a second check only looks up and finds nothing.
\<close>

theorem totp_exists_reports_only_verified:
  assumes session_verified: "\<not> truthy (tokenVerificationId (credentials r))"
    and store_up: "\<forall>c. db_fault e c = None"
  shows
    "(totp w (uid (credentials r)) = None \<longrightarrow>
        totp_exists e r w =
          (Reply (ExistsBody False),
           w\<lparr>trace := trace w @ [LogBegin ''totp.exists'', DbTotpToken (uid (credentials r))]\<rparr>))
     \<and> (\<forall>t. totp w (uid (credentials r)) = Some t \<and> \<not> verified t \<longrightarrow>
        totp_exists e r w =
          (Reply (ExistsBody False),
           w\<lparr>totp := (totp w)(uid (credentials r) := None),
             trace := trace w @ [LogBegin ''totp.exists'', DbTotpToken (uid (credentials r)),
                                 DbDeleteTotpToken (uid (credentials r))]\<rparr>))
     \<and> (\<forall>t. totp w (uid (credentials r)) = Some t \<and> verified t \<longrightarrow>
        totp_exists e r w =
          (Reply (ExistsBody True),
           w\<lparr>trace := trace w @ [LogBegin ''totp.exists'', DbTotpToken (uid (credentials r))]\<rparr>))
     \<and> (\<forall>b. fst (totp_create e r w) = Reply b \<longrightarrow>
          fst (totp_exists e r (snd (totp_create e r w))) = Reply (ExistsBody False)
          \<and> totp (snd (totp_exists e r (snd (totp_create e r w)))) (uid (credentials r)) = None
          \<and> new_events (snd (totp_exists e r (snd (totp_create e r w))))
               (snd (totp_exists e r (snd (totp_exists e r (snd (totp_create e r w))))))
             = [LogBegin ''totp.exists'', DbTotpToken (uid (credentials r))])"
proof (intro conjI allI impI)
  assume "totp w (uid (credentials r)) = None"
  then show "totp_exists e r w =
          (Reply (ExistsBody False),
           w\<lparr>trace := trace w @ [LogBegin ''totp.exists'', DbTotpToken (uid (credentials r))]\<rparr>)"
    by (rule exists_absent[OF session_verified store_up])
next
  fix t assume "totp w (uid (credentials r)) = Some t \<and> \<not> verified t"
  then show "totp_exists e r w =
          (Reply (ExistsBody False),
           w\<lparr>totp := (totp w)(uid (credentials r) := None),
             trace := trace w @ [LogBegin ''totp.exists'', DbTotpToken (uid (credentials r)),
                                 DbDeleteTotpToken (uid (credentials r))]\<rparr>)"
    using exists_unverified[OF session_verified store_up] by blast
next
  fix t assume "totp w (uid (credentials r)) = Some t \<and> verified t"
  then show "totp_exists e r w =
          (Reply (ExistsBody True),
           w\<lparr>trace := trace w @ [LogBegin ''totp.exists'', DbTotpToken (uid (credentials r))]\<rparr>)"
    using exists_verified[OF session_verified store_up] by blast
next
  fix b assume created: "fst (totp_create e r w) = Reply b"
  define w1 where "w1 = snd (totp_create e r w)"
  obtain t where t: "totp w1 (uid (credentials r)) = Some t" "\<not> verified t"
    using create_reply_stores_pending[OF created] unfolding w1_def by blast
  have first: "totp_exists e r w1 =
          (Reply (ExistsBody False),
           w1\<lparr>totp := (totp w1)(uid (credentials r) := None),
             trace := trace w1 @ [LogBegin ''totp.exists'', DbTotpToken (uid (credentials r)),
                                 DbDeleteTotpToken (uid (credentials r))]\<rparr>)"
    by (rule exists_unverified[OF session_verified store_up t])
  define w2 where "w2 = snd (totp_exists e r w1)"
  have gone: "totp w2 (uid (credentials r)) = None"
    unfolding w2_def by (simp add: first)
  have second: "totp_exists e r w2 =
          (Reply (ExistsBody False),
           w2\<lparr>trace := trace w2 @ [LogBegin ''totp.exists'', DbTotpToken (uid (credentials r))]\<rparr>)"
    by (rule exists_absent[OF session_verified store_up gone])
  show "fst (totp_exists e r (snd (totp_create e r w))) = Reply (ExistsBody False)"
    using first unfolding w1_def by simp
  show "totp (snd (totp_exists e r (snd (totp_create e r w)))) (uid (credentials r)) = None"
    using gone unfolding w2_def w1_def .
  show "new_events (snd (totp_exists e r (snd (totp_create e r w))))
               (snd (totp_exists e r (snd (totp_exists e r (snd (totp_create e r w))))))
             = [LogBegin ''totp.exists'', DbTotpToken (uid (credentials r))]"
    using second unfolding w2_def w1_def by (simp add: new_events_def)
qed

theorem totp_exists_reports_only_verified_witness:
  "\<not> truthy (tokenVerificationId (credentials ex_request))
   \<and> (\<forall>c. db_fault ex_env c = None)
   \<and> fst (totp_exists ex_env ex_request ex_world) = Reply (ExistsBody False)
   \<and> fst (totp_exists ex_env ex_request ex_world_pending) = Reply (ExistsBody False)
   \<and> totp (snd (totp_exists ex_env ex_request ex_world_pending)) ''u1'' = None
   \<and> fst (totp_exists ex_env ex_request ex_world_verified) = Reply (ExistsBody True)
   \<and> totp (snd (totp_exists ex_env ex_request ex_world_verified)) = totp ex_world_verified
   \<and> fst (totp_exists ex_env ex_request (snd (totp_create ex_env ex_request ex_world)))
       = Reply (ExistsBody False)"
proof -
  have h1: "\<not> truthy (tokenVerificationId (credentials ex_request))"
    by (simp add: example_defs truthy_def)
  have h2: "\<forall>c. db_fault ex_env c = None"
    by (simp add: example_defs)
  have created: "fst (totp_create ex_env ex_request ex_world) =
      Reply (CreateBody
        ''data:image/png;base64,otpauth://totp/accounts:user@example.com?secret=3132'' ''3132'')"
    by (simp add: example_defs route_defs promise_defs store_defs truthy_def Let_def)
  have u: "uid (credentials ex_request) = ''u1''"
    by (simp add: example_defs)
  have a: "totp ex_world ''u1'' = None"
    and p: "totp ex_world_pending ''u1'' = Some ex_pending_totp \<and> \<not> verified ex_pending_totp"
    and v: "totp ex_world_verified ''u1'' = Some (ex_pending_totp\<lparr>verified := True, enabled := True\<rparr>)
            \<and> verified (ex_pending_totp\<lparr>verified := True, enabled := True\<rparr>)"
    by (simp_all add: example_defs)
  note T = totp_exists_reports_only_verified[OF h1 h2, unfolded u]
  show ?thesis
    using h1 h2 created a p v T[of ex_world] T[of ex_world_pending] T[of ex_world_verified]
    by simp
qed

section \<open>Verifying a code\<close>

lemma verify_emitMetrics_eq:
  "verify_emitMetrics e u v w =
     (Inr (), w\<lparr>trace := trace w @
        [LogInfo (if v then ''totp.verified'' else ''totp.unverified'') u,
         EmitMetricsEvent (if v then ''totpToken.verified'' else ''totpToken.unverified'') u]\<rparr>)"
  by (simp add: verify_emitMetrics_def promise_defs Let_def split: option.splits)

lemmas verify_defs = verifyTotpToken_def verifySession_def verify_emitMetrics_eq
  session_verify_totp_def

lemma verify_reply:
  assumes "customs_check e r ''sessionVerifyTotp'' = None"
    and "\<forall>c. db_fault e c = None"
    and "totp w (uid (credentials r)) = Some t"
  shows "fst (session_verify_totp e r w) =
           Reply (SuccessBody (authenticator_check e (payload_code r) (sharedSecret t)))"
  using assms by (simp add: verify_defs promise_defs store_defs Let_def)

lemma verify_updates:
  assumes "customs_check e r ''sessionVerifyTotp'' = None"
    and "\<forall>c. db_fault e c = None"
    and "totp w (uid (credentials r)) = Some t"
  shows "filter is_totp_update (new_events w (snd (session_verify_totp e r w))) =
           (if authenticator_check e (payload_code r) (sharedSecret t) \<and> \<not> verified t
            then [DbUpdateTotpToken (uid (credentials r)) True True] else [])"
  using assms
  by (simp add: verify_defs promise_defs store_defs Let_def new_events_def)

lemma verify_store:
  assumes "customs_check e r ''sessionVerifyTotp'' = None"
    and "\<forall>c. db_fault e c = None"
    and "totp w (uid (credentials r)) = Some t"
  shows "totp (snd (session_verify_totp e r w)) =
           (if authenticator_check e (payload_code r) (sharedSecret t) \<and> \<not> verified t
            then (totp w)(uid (credentials r) \<mapsto> t\<lparr>verified := True, enabled := True\<rparr>)
            else totp w)"
  using assms by (simp add: verify_defs promise_defs store_defs Let_def)

lemma verify_attempts_invalid:
  assumes "totp w u = Some t"
    and "\<forall>(e', r') \<in> set attempts.
           uid (credentials r') = u
           \<and> \<not> authenticator_check e' (payload_code r') (sharedSecret t)
           \<and> customs_check e' r' ''sessionVerifyTotp'' = None
           \<and> (\<forall>c. db_fault e' c = None)"
  shows "totp (snd (verify_attempts attempts w)) = totp w
         \<and> fst (verify_attempts attempts w) = replicate (length attempts) (Reply (SuccessBody False))"
  using assms
proof (induction attempts arbitrary: w)
  case Nil
  then show ?case by simp
next
  case (Cons a attempts)
  obtain e' r' where a: "a = (e', r')" by (cases a)
  from Cons.prems(2) a have here:
    "uid (credentials r') = u"
    "\<not> authenticator_check e' (payload_code r') (sharedSecret t)"
    "customs_check e' r' ''sessionVerifyTotp'' = None"
    "\<forall>c. db_fault e' c = None"
    by auto
  from Cons.prems(1) here(1) have stored: "totp w (uid (credentials r')) = Some t" by simp
  obtain out w' where step: "session_verify_totp e' r' w = (out, w')"
    by (cases "session_verify_totp e' r' w")
  have out: "out = Reply (SuccessBody False)"
    using verify_reply[OF here(3) here(4) stored] here(2) step by simp
  have keep: "totp w' = totp w"
    using verify_store[OF here(3) here(4) stored] here(2) step by simp
  have rest: "\<forall>(e', r') \<in> set attempts.
           uid (credentials r') = u
           \<and> \<not> authenticator_check e' (payload_code r') (sharedSecret t)
           \<and> customs_check e' r' ''sessionVerifyTotp'' = None
           \<and> (\<forall>c. db_fault e' c = None)"
    using Cons.prems(2) by simp
  have stored': "totp w' u = Some t" using keep Cons.prems(1) by simp
  obtain outs w'' where run: "verify_attempts attempts w' = (outs, w'')"
    by (cases "verify_attempts attempts w'")
  from Cons.IH[OF stored' rest] keep out step a run show ?case
    by simp
qed

text \<open>
  Claim C2. For a stored TotpToken and a submitted code, when the rate-limit check
  passes and the Token Store answers, VerifyCode replies \<open>success\<close> equal to the result of
  checking the code against the shared secret; it calls the store's update exactly when
  the code is valid and the token's \<open>verified\<close> flag was false, once, setting
  \<open>verified = true\<close> and \<open>enabled = true\<close> together; otherwise the TOTP table is
  unchanged. Any number of attempts with invalid codes leaves the TOTP table as it was,
  and each replies the normal result \<open>success = false\<close>.
\<close>

theorem verify_code_updates_iff_valid_and_unverified:
  assumes customs_ok: "customs_check e r ''sessionVerifyTotp'' = None"
    and store_up: "\<forall>c. db_fault e c = None"
    and stored: "totp w (uid (credentials r)) = Some t"
  shows
    "fst (session_verify_totp e r w) =
        Reply (SuccessBody (authenticator_check e (payload_code r) (sharedSecret t)))
     \<and> filter is_totp_update (new_events w (snd (session_verify_totp e r w))) =
          (if authenticator_check e (payload_code r) (sharedSecret t) \<and> \<not> verified t
           then [DbUpdateTotpToken (uid (credentials r)) True True] else [])
     \<and> totp (snd (session_verify_totp e r w)) =
          (if authenticator_check e (payload_code r) (sharedSecret t) \<and> \<not> verified t
           then (totp w)(uid (credentials r) \<mapsto> t\<lparr>verified := True, enabled := True\<rparr>)
           else totp w)
     \<and> (\<forall>attempts.
          (\<forall>(e', r') \<in> set attempts.
              uid (credentials r') = uid (credentials r)
              \<and> \<not> authenticator_check e' (payload_code r') (sharedSecret t)
              \<and> customs_check e' r' ''sessionVerifyTotp'' = None
              \<and> (\<forall>c. db_fault e' c = None))
          \<longrightarrow> totp (snd (verify_attempts attempts w)) = totp w
              \<and> fst (verify_attempts attempts w) =
                  replicate (length attempts) (Reply (SuccessBody False)))"
  using verify_reply[OF assms] verify_updates[OF assms] verify_store[OF assms]
    verify_attempts_invalid[OF stored]
  by blast

theorem verify_code_updates_iff_valid_and_unverified_witness:
  "customs_check ex_env ex_request ''sessionVerifyTotp'' = None
   \<and> (\<forall>c. db_fault ex_env c = None)
   \<and> totp ex_world_pending (uid (credentials ex_request)) = Some ex_pending_totp
   \<and> fst (session_verify_totp ex_env ex_request ex_world_pending) = Reply (SuccessBody True)
   \<and> filter is_totp_update
        (new_events ex_world_pending (snd (session_verify_totp ex_env ex_request ex_world_pending)))
       = [DbUpdateTotpToken ''u1'' True True]
   \<and> totp (snd (session_verify_totp ex_env ex_request ex_world_pending)) ''u1''
       = Some (ex_pending_totp\<lparr>verified := True, enabled := True\<rparr>)
   \<and> fst (verify_attempts [(ex_env, ex_wrong_request), (ex_env, ex_wrong_request)] ex_world_pending)
       = [Reply (SuccessBody False), Reply (SuccessBody False)]
   \<and> totp (snd (verify_attempts [(ex_env, ex_wrong_request), (ex_env, ex_wrong_request)]
                  ex_world_pending)) = totp ex_world_pending"
proof -
  have h1: "customs_check ex_env ex_request ''sessionVerifyTotp'' = None"
    by (simp add: example_defs)
  have h2: "\<forall>c. db_fault ex_env c = None"
    by (simp add: example_defs)
  have h3: "totp ex_world_pending (uid (credentials ex_request)) = Some ex_pending_totp"
    by (simp add: example_defs)
  have valid: "authenticator_check ex_env (payload_code ex_request) (sharedSecret ex_pending_totp)"
    and pending: "\<not> verified ex_pending_totp"
    and u: "uid (credentials ex_request) = ''u1''"
    by (simp_all add: example_defs)
  have wrong: "\<forall>(e', r') \<in> set [(ex_env, ex_wrong_request), (ex_env, ex_wrong_request)].
              uid (credentials r') = uid (credentials ex_request)
              \<and> \<not> authenticator_check e' (payload_code r') (sharedSecret ex_pending_totp)
              \<and> customs_check e' r' ''sessionVerifyTotp'' = None
              \<and> (\<forall>c. db_fault e' c = None)"
    by (simp add: example_defs)
  note T = verify_code_updates_iff_valid_and_unverified[OF h1 h2 h3]
  from T have A: "\<forall>attempts.
          (\<forall>(e', r') \<in> set attempts.
              uid (credentials r') = uid (credentials ex_request)
              \<and> \<not> authenticator_check e' (payload_code r') (sharedSecret ex_pending_totp)
              \<and> customs_check e' r' ''sessionVerifyTotp'' = None
              \<and> (\<forall>c. db_fault e' c = None))
          \<longrightarrow> totp (snd (verify_attempts attempts ex_world_pending)) = totp ex_world_pending
              \<and> fst (verify_attempts attempts ex_world_pending) =
                  replicate (length attempts) (Reply (SuccessBody False))"
    by blast
  from A wrong have B: "totp (snd (verify_attempts [(ex_env, ex_wrong_request), (ex_env, ex_wrong_request)] ex_world_pending)) = totp ex_world_pending
      \<and> fst (verify_attempts [(ex_env, ex_wrong_request), (ex_env, ex_wrong_request)] ex_world_pending) =
                  replicate (length [(ex_env, ex_wrong_request), (ex_env, ex_wrong_request)]) (Reply (SuccessBody False))"
    by blast
  show ?thesis
    using h1 h2 h3 valid pending u T B by (simp add: numeral_2_eq_2)
qed

section \<open>Verifying the session\<close>

lemma verify_session_only_if:
  assumes wf: "tokenVerificationId (credentials r) \<noteq> Some []"
    and called: "DbVerifyTokensWithMethod sid m \<in> set (new_events w (snd (session_verify_totp e r w)))"
  shows "sid = tokenId (credentials r) \<and> m = ''totp-2fa''
         \<and> tokenVerificationId (credentials r) \<noteq> None
         \<and> (\<exists>t. totp w (uid (credentials r)) = Some t
                \<and> authenticator_check e (payload_code r) (sharedSecret t))"
  using assms
  by (auto simp add: verify_defs promise_defs store_defs Let_def new_events_def truthy_def
      split: option.splits if_splits)

lemma verify_session_calls:
  assumes wf: "tokenVerificationId (credentials r) \<noteq> Some []"
    and "customs_check e r ''sessionVerifyTotp'' = None"
    and "\<forall>c. db_fault e c = None"
    and "totp w (uid (credentials r)) = Some t"
  shows "filter is_session_verification (new_events w (snd (session_verify_totp e r w))) =
           (if authenticator_check e (payload_code r) (sharedSecret t)
               \<and> tokenVerificationId (credentials r) \<noteq> None
            then [DbVerifyTokensWithMethod (tokenId (credentials r)) ''totp-2fa''] else [])
         \<and> verifiedSessions (snd (session_verify_totp e r w)) =
           verifiedSessions w @
           (if authenticator_check e (payload_code r) (sharedSecret t)
               \<and> tokenVerificationId (credentials r) \<noteq> None
            then [(tokenId (credentials r), ''totp-2fa'')] else [])"
  using assms
  by (auto simp add: verify_defs promise_defs store_defs Let_def new_events_def truthy_def
      split: option.splits)

text \<open>
  Claim C3. For a session principal whose \<open>tokenVerificationId\<close>, when present, is not the
  empty string: whatever the collaborators do, VerifyCode calls the session-verification
  operation only on the calling session, only with the method \<open>totp-2fa\<close>, and only when
  the principal carries a \<open>tokenVerificationId\<close> and the submitted code is valid for the
  stored secret. When the rate-limit check passes and the Token Store answers, it makes
  that call exactly once if the code is valid and the principal carries a
  \<open>tokenVerificationId\<close>, and not at all otherwise.
\<close>

theorem verify_session_iff_valid_and_pending:
  assumes wf: "tokenVerificationId (credentials r) \<noteq> Some []"
  shows
    "(\<forall>sid m. DbVerifyTokensWithMethod sid m
                 \<in> set (new_events w (snd (session_verify_totp e r w))) \<longrightarrow>
         sid = tokenId (credentials r) \<and> m = ''totp-2fa''
         \<and> tokenVerificationId (credentials r) \<noteq> None
         \<and> (\<exists>t. totp w (uid (credentials r)) = Some t
                \<and> authenticator_check e (payload_code r) (sharedSecret t)))
     \<and> (\<forall>t. customs_check e r ''sessionVerifyTotp'' = None
            \<and> (\<forall>c. db_fault e c = None)
            \<and> totp w (uid (credentials r)) = Some t \<longrightarrow>
          filter is_session_verification (new_events w (snd (session_verify_totp e r w))) =
            (if authenticator_check e (payload_code r) (sharedSecret t)
                \<and> tokenVerificationId (credentials r) \<noteq> None
             then [DbVerifyTokensWithMethod (tokenId (credentials r)) ''totp-2fa''] else [])
          \<and> verifiedSessions (snd (session_verify_totp e r w)) =
            verifiedSessions w @
            (if authenticator_check e (payload_code r) (sharedSecret t)
                \<and> tokenVerificationId (credentials r) \<noteq> None
             then [(tokenId (credentials r), ''totp-2fa'')] else []))"
  using verify_session_only_if[OF wf] verify_session_calls[OF wf]
  by blast

theorem verify_session_iff_valid_and_pending_witness:
  "tokenVerificationId (credentials ex_pending_request) \<noteq> Some []
   \<and> tokenVerificationId (credentials ex_request) \<noteq> Some []
   \<and> customs_check ex_env ex_pending_request ''sessionVerifyTotp'' = None
   \<and> (\<forall>c. db_fault ex_env c = None)
   \<and> totp ex_world_pending (uid (credentials ex_pending_request)) = Some ex_pending_totp
   \<and> filter is_session_verification
        (new_events ex_world_pending
           (snd (session_verify_totp ex_env ex_pending_request ex_world_pending)))
       = [DbVerifyTokensWithMethod ''a1b2c3d4'' ''totp-2fa'']
   \<and> filter is_session_verification
        (new_events ex_world_pending
           (snd (session_verify_totp ex_env ex_request ex_world_pending)))
       = []"
proof -
  have wf1: "tokenVerificationId (credentials ex_pending_request) \<noteq> Some []"
    and wf2: "tokenVerificationId (credentials ex_request) \<noteq> Some []"
    by (simp_all add: example_defs)
  have h1: "customs_check ex_env ex_pending_request ''sessionVerifyTotp'' = None"
    and h1': "customs_check ex_env ex_request ''sessionVerifyTotp'' = None"
    and h2: "\<forall>c. db_fault ex_env c = None"
    and h3: "totp ex_world_pending (uid (credentials ex_pending_request)) = Some ex_pending_totp"
    and h3': "totp ex_world_pending (uid (credentials ex_request)) = Some ex_pending_totp"
    by (simp_all add: example_defs)
  have facts:
    "authenticator_check ex_env (payload_code ex_pending_request) (sharedSecret ex_pending_totp)"
    "authenticator_check ex_env (payload_code ex_request) (sharedSecret ex_pending_totp)"
    "tokenVerificationId (credentials ex_pending_request) \<noteq> None"
    "tokenVerificationId (credentials ex_request) = None"
    "tokenId (credentials ex_pending_request) = ''a1b2c3d4''"
    by (simp_all add: example_defs)
  from verify_session_iff_valid_and_pending[OF wf1, of ex_world_pending ex_env] h1 h2 h3
  have A: "filter is_session_verification (new_events ex_world_pending (snd (session_verify_totp ex_env ex_pending_request ex_world_pending))) =
            (if authenticator_check ex_env (payload_code ex_pending_request) (sharedSecret ex_pending_totp)
                \<and> tokenVerificationId (credentials ex_pending_request) \<noteq> None
             then [DbVerifyTokensWithMethod (tokenId (credentials ex_pending_request)) ''totp-2fa''] else [])"
    by blast
  from verify_session_iff_valid_and_pending[OF wf2, of ex_world_pending ex_env] h1' h2 h3'
  have B: "filter is_session_verification (new_events ex_world_pending (snd (session_verify_totp ex_env ex_request ex_world_pending))) =
            (if authenticator_check ex_env (payload_code ex_request) (sharedSecret ex_pending_totp)
                \<and> tokenVerificationId (credentials ex_request) \<noteq> None
             then [DbVerifyTokensWithMethod (tokenId (credentials ex_request)) ''totp-2fa''] else [])"
    by blast
  show ?thesis
    using wf1 wf2 h1 h2 h3 A B facts by simp
qed

section \<open>The unverified-session guard\<close>

lemma exists_guard:
  assumes "truthy (tokenVerificationId (credentials r))"
  shows "totp_exists e r w = (Thrown UnverifiedSession, w\<lparr>trace := trace w @ [LogBegin ''totp.exists'']\<rparr>)"
  using assms by (simp add: route_defs promise_defs Let_def)

lemma create_guard:
  assumes "truthy (tokenVerificationId (credentials r))"
  shows "totp_create e r w =
           (ReplyError (case customs_check e r ''totpCreate'' of
                          None \<Rightarrow> UnverifiedSession | Some err \<Rightarrow> err),
            w\<lparr>trace := trace w @ [LogBegin ''totp.create'', CustomsCheck ''totpCreate'']\<rparr>)"
  using assms by (simp add: route_defs promise_defs Let_def split: option.splits)

lemma destroy_guard:
  assumes "truthy (tokenVerificationId (credentials r))"
  shows "totp_destroy e r w =
           (ReplyError (case customs_check e r ''totpDestroy'' of
                          None \<Rightarrow> UnverifiedSession | Some err \<Rightarrow> err),
            w\<lparr>trace := trace w @ [LogBegin ''totp.destroy'', CustomsCheck ''totpDestroy'']\<rparr>)"
  using assms by (simp add: route_defs promise_defs Let_def split: option.splits)

text \<open>
  Claim C4, amended. For Create and Destroy and every session principal that carries a
  \<open>tokenVerificationId\<close>, the operation replies the unverified-session failure once the
  rate-limit check, which comes first, has passed; a failure of that check is replied
  instead; either way it makes no Token Store call. For
  Exists and such a principal no Token Store call is made and no result is replied. In
  every case the world is left as it was except for the begin log line and, for Create and
  Destroy, the rate-limit check.
\<close>

theorem unverified_session_guard:
  assumes pending: "truthy (tokenVerificationId (credentials r))"
  shows
    "(customs_check e r ''totpCreate'' = None \<longrightarrow>
          fst (totp_create e r w) = ReplyError UnverifiedSession)
     \<and> (\<forall>err. customs_check e r ''totpCreate'' = Some err \<longrightarrow>
          fst (totp_create e r w) = ReplyError err)
     \<and> snd (totp_create e r w) =
          w\<lparr>trace := trace w @ [LogBegin ''totp.create'', CustomsCheck ''totpCreate'']\<rparr>
     \<and> (customs_check e r ''totpDestroy'' = None \<longrightarrow>
          fst (totp_destroy e r w) = ReplyError UnverifiedSession)
     \<and> (\<forall>err. customs_check e r ''totpDestroy'' = Some err \<longrightarrow>
          fst (totp_destroy e r w) = ReplyError err)
     \<and> snd (totp_destroy e r w) =
          w\<lparr>trace := trace w @ [LogBegin ''totp.destroy'', CustomsCheck ''totpDestroy'']\<rparr>
     \<and> snd (totp_exists e r w) = w\<lparr>trace := trace w @ [LogBegin ''totp.exists'']\<rparr>
     \<and> (\<forall>b. fst (totp_exists e r w) \<noteq> Reply b)"
  by (simp add: exists_guard[OF pending] create_guard[OF pending] destroy_guard[OF pending])

theorem unverified_session_guard_witness:
  "truthy (tokenVerificationId (credentials ex_pending_request))
   \<and> customs_check ex_env ex_pending_request ''totpCreate'' = None
   \<and> customs_check ex_env ex_pending_request ''totpDestroy'' = None
   \<and> fst (totp_create ex_env ex_pending_request ex_world_pending) = ReplyError UnverifiedSession
   \<and> fst (totp_destroy ex_env ex_pending_request ex_world_pending) = ReplyError UnverifiedSession
   \<and> totp (snd (totp_create ex_env ex_pending_request ex_world_pending)) = totp ex_world_pending
   \<and> totp (snd (totp_destroy ex_env ex_pending_request ex_world_pending)) = totp ex_world_pending
   \<and> totp (snd (totp_exists ex_env ex_pending_request ex_world_pending)) = totp ex_world_pending
   \<and> fst (totp_exists ex_env ex_pending_request ex_world_pending) \<noteq> Reply (ExistsBody False)"
proof -
  have h: "truthy (tokenVerificationId (credentials ex_pending_request))"
    by (simp add: example_defs truthy_def)
  have c: "customs_check ex_env ex_pending_request ''totpCreate'' = None"
    "customs_check ex_env ex_pending_request ''totpDestroy'' = None"
    by (simp_all add: example_defs)
  show ?thesis
    using h c unverified_session_guard[OF h, of ex_env ex_world_pending] by simp
qed

text \<open>
  Claim C4 as stated fails for VerifyCode, which has no such guard: for a session that
  carries a \<open>tokenVerificationId\<close> and a valid code it replies \<open>success = true\<close>, updates
  the TotpToken and marks the session verified.
\<close>

theorem verify_code_has_no_session_guard:
  "tokenVerificationId (credentials ex_pending_request) = Some ''f00d''
   \<and> customs_check ex_env ex_pending_request ''sessionVerifyTotp'' = None
   \<and> fst (session_verify_totp ex_env ex_pending_request ex_world_pending) = Reply (SuccessBody True)
   \<and> fst (session_verify_totp ex_env ex_pending_request ex_world_pending)
       \<noteq> ReplyError UnverifiedSession
   \<and> filter is_mutation (trace (snd (session_verify_totp ex_env ex_pending_request ex_world_pending)))
       = [DbUpdateTotpToken ''u1'' True True, DbVerifyTokensWithMethod ''a1b2c3d4'' ''totp-2fa'']
   \<and> totp (snd (session_verify_totp ex_env ex_pending_request ex_world_pending)) ''u1''
       = Some \<lparr>sharedSecret = ''3132'', verified = True, enabled = True, epoch = 0\<rparr>"
  by (simp add: example_defs verify_defs promise_defs store_defs truthy_def Let_def)

section \<open>The rate-limit check\<close>

lemma create_customs_first:
  "\<exists>rest. trace (snd (totp_create e r w)) =
            trace w @ LogBegin ''totp.create'' # CustomsCheck ''totpCreate'' # rest"
  by (auto simp add: route_defs promise_defs store_defs Let_def
      split: option.splits sum.splits)

lemma destroy_customs_first:
  "\<exists>rest. trace (snd (totp_destroy e r w)) =
            trace w @ LogBegin ''totp.destroy'' # CustomsCheck ''totpDestroy'' # rest"
  by (auto simp add: route_defs promise_defs store_defs Let_def
      split: option.splits sum.splits)

lemma verify_customs_first:
  "\<exists>rest. trace (snd (session_verify_totp e r w)) =
            trace w @ LogBegin ''session.verify.totp'' # CustomsCheck ''sessionVerifyTotp'' # rest"
  by (auto simp add: verify_defs promise_defs store_defs Let_def
      split: option.splits sum.splits)

text \<open>
  Claim C5, amended. Create, Destroy and VerifyCode perform the rate-limit check first:
  whatever happens, the record of calls of the request starts with the begin log line and
  the rate-limit check, so every Token Store call and every telemetry event comes after
  the check. When the check fails, the failure is replied as it is and nothing else
  happens: no store lookup, no state change, no telemetry event.
\<close>

theorem customs_check_comes_first:
  "(\<exists>rest. trace (snd (totp_create e r w)) =
            trace w @ LogBegin ''totp.create'' # CustomsCheck ''totpCreate'' # rest)
   \<and> (\<exists>rest. trace (snd (totp_destroy e r w)) =
            trace w @ LogBegin ''totp.destroy'' # CustomsCheck ''totpDestroy'' # rest)
   \<and> (\<exists>rest. trace (snd (session_verify_totp e r w)) =
            trace w @ LogBegin ''session.verify.totp'' # CustomsCheck ''sessionVerifyTotp'' # rest)
   \<and> (\<forall>err. customs_check e r ''totpCreate'' = Some err \<longrightarrow>
         totp_create e r w =
           (ReplyError err,
            w\<lparr>trace := trace w @ [LogBegin ''totp.create'', CustomsCheck ''totpCreate'']\<rparr>))
   \<and> (\<forall>err. customs_check e r ''totpDestroy'' = Some err \<longrightarrow>
         totp_destroy e r w =
           (ReplyError err,
            w\<lparr>trace := trace w @ [LogBegin ''totp.destroy'', CustomsCheck ''totpDestroy'']\<rparr>))
   \<and> (\<forall>err. customs_check e r ''sessionVerifyTotp'' = Some err \<longrightarrow>
         session_verify_totp e r w =
           (ReplyError err,
            w\<lparr>trace := trace w @ [LogBegin ''session.verify.totp'',
                                  CustomsCheck ''sessionVerifyTotp'']\<rparr>))"
proof -
  have c: "\<forall>err. customs_check e r ''totpCreate'' = Some err \<longrightarrow>
         totp_create e r w =
           (ReplyError err,
            w\<lparr>trace := trace w @ [LogBegin ''totp.create'', CustomsCheck ''totpCreate'']\<rparr>)"
    by (simp add: route_defs promise_defs Let_def)
  have d: "\<forall>err. customs_check e r ''totpDestroy'' = Some err \<longrightarrow>
         totp_destroy e r w =
           (ReplyError err,
            w\<lparr>trace := trace w @ [LogBegin ''totp.destroy'', CustomsCheck ''totpDestroy'']\<rparr>)"
    by (simp add: route_defs promise_defs Let_def)
  have v: "\<forall>err. customs_check e r ''sessionVerifyTotp'' = Some err \<longrightarrow>
         session_verify_totp e r w =
           (ReplyError err,
            w\<lparr>trace := trace w @ [LogBegin ''session.verify.totp'',
                                  CustomsCheck ''sessionVerifyTotp'']\<rparr>)"
    by (simp add: route_defs promise_defs Let_def)
  from create_customs_first destroy_customs_first verify_customs_first c d v
  show ?thesis by blast
qed

theorem customs_check_comes_first_witness:
  "customs_check ex_env_blocked ex_request ''totpCreate''
     = Some (OtherError ''Client has sent too many requests'')
   \<and> totp_create ex_env_blocked ex_request ex_world_pending =
       (ReplyError (OtherError ''Client has sent too many requests''),
        ex_world_pending\<lparr>trace := [LogBegin ''totp.create'', CustomsCheck ''totpCreate'']\<rparr>)
   \<and> totp_destroy ex_env_blocked ex_request ex_world_pending =
       (ReplyError (OtherError ''Client has sent too many requests''),
        ex_world_pending\<lparr>trace := [LogBegin ''totp.destroy'', CustomsCheck ''totpDestroy'']\<rparr>)
   \<and> session_verify_totp ex_env_blocked ex_request ex_world_pending =
       (ReplyError (OtherError ''Client has sent too many requests''),
        ex_world_pending\<lparr>trace := [LogBegin ''session.verify.totp'',
                                     CustomsCheck ''sessionVerifyTotp'']\<rparr>)"
proof -
  have h: "customs_check ex_env_blocked ex_request ''totpCreate''
             = Some (OtherError ''Client has sent too many requests'')"
    "customs_check ex_env_blocked ex_request ''totpDestroy''
             = Some (OtherError ''Client has sent too many requests'')"
    "customs_check ex_env_blocked ex_request ''sessionVerifyTotp''
             = Some (OtherError ''Client has sent too many requests'')"
    by (simp_all add: example_defs)
  have t: "trace ex_world_pending = []"
    by (simp add: example_defs)
  show ?thesis
    using h t customs_check_comes_first[of ex_env_blocked ex_request ex_world_pending]
    by simp
qed

text \<open>
  Claim C5 as stated fails for Exists, which never consults the rate limiter: with a
  rate limiter that rejects the request (Destroy is refused), Exists still looks the
  token up in the Token Store and replies.
\<close>

theorem exists_makes_no_customs_check:
  "fst (totp_destroy ex_env_blocked ex_request ex_world_verified)
     = ReplyError (OtherError ''Client has sent too many requests'')
   \<and> fst (totp_exists ex_env_blocked ex_request ex_world_verified) = Reply (ExistsBody True)
   \<and> trace (snd (totp_exists ex_env_blocked ex_request ex_world_verified))
       = [LogBegin ''totp.exists'', DbTotpToken ''u1'']
   \<and> filter is_customs_check (trace (snd (totp_exists ex_env_blocked ex_request ex_world_verified)))
       = []"
  by (simp add: example_defs route_defs promise_defs store_defs truthy_def Let_def)

section \<open>Destroying a token\<close>

lemma destroy_result:
  assumes "\<not> truthy (tokenVerificationId (credentials r))"
    and "customs_check e r ''totpDestroy'' = None"
  shows "totp_destroy e r w =
     (case db_fault e (DbDeleteTotpToken (uid (credentials r))) of
        Some err \<Rightarrow>
          (ReplyError err,
           w\<lparr>trace := trace w @ [LogBegin ''totp.destroy'', CustomsCheck ''totpDestroy'',
                                 DbDeleteTotpToken (uid (credentials r))]\<rparr>)
      | None \<Rightarrow>
          (if totp w (uid (credentials r)) = None \<and> deleteMissingSignalsNotFound e
           then (ReplyError TotpTokenNotFound,
                 w\<lparr>trace := trace w @ [LogBegin ''totp.destroy'', CustomsCheck ''totpDestroy'',
                                       DbDeleteTotpToken (uid (credentials r))]\<rparr>)
           else (Reply EmptyBody,
                 w\<lparr>totp := (totp w)(uid (credentials r) := None),
                   trace := trace w @ [LogBegin ''totp.destroy'', CustomsCheck ''totpDestroy'',
                                       DbDeleteTotpToken (uid (credentials r))]\<rparr>)))"
  using assms by (simp add: route_defs promise_defs store_defs Let_def split: option.splits)

text \<open>
  Claim C6, amended. For a user with a verified session, once the rate-limit check has
  passed, Destroy replies whatever the Token Store's delete signals: the empty success
  body when the delete succeeds (the user then has no TotpToken), and the store's failure,
  not-found included, when it fails. So Destroy called twice in a row succeeds both times
  exactly when the store does not signal not-found for an absent token.
\<close>

theorem destroy_returns_what_the_store_signals:
  assumes session_verified: "\<not> truthy (tokenVerificationId (credentials r))"
    and customs_ok: "customs_check e r ''totpDestroy'' = None"
  shows
    "(\<forall>err. db_fault e (DbDeleteTotpToken (uid (credentials r))) = Some err \<longrightarrow>
        fst (totp_destroy e r w) = ReplyError err
        \<and> totp (snd (totp_destroy e r w)) = totp w)
     \<and> (db_fault e (DbDeleteTotpToken (uid (credentials r))) = None
        \<and> (totp w (uid (credentials r)) \<noteq> None \<or> \<not> deleteMissingSignalsNotFound e) \<longrightarrow>
        fst (totp_destroy e r w) = Reply EmptyBody
        \<and> totp (snd (totp_destroy e r w)) = (totp w)(uid (credentials r) := None))
     \<and> (db_fault e (DbDeleteTotpToken (uid (credentials r))) = None
        \<and> totp w (uid (credentials r)) = None \<and> deleteMissingSignalsNotFound e \<longrightarrow>
        fst (totp_destroy e r w) = ReplyError TotpTokenNotFound
        \<and> totp (snd (totp_destroy e r w)) = totp w)
     \<and> (db_fault e (DbDeleteTotpToken (uid (credentials r))) = None
        \<and> \<not> deleteMissingSignalsNotFound e \<longrightarrow>
        fst (totp_destroy e r (snd (totp_destroy e r w))) = Reply EmptyBody
        \<and> totp (snd (totp_destroy e r (snd (totp_destroy e r w)))) (uid (credentials r)) = None)"
  by (auto simp add: destroy_result[OF session_verified customs_ok])

theorem destroy_returns_what_the_store_signals_witness:
  "\<not> truthy (tokenVerificationId (credentials ex_request))
   \<and> customs_check ex_env ex_request ''totpDestroy'' = None
   \<and> db_fault ex_env (DbDeleteTotpToken (uid (credentials ex_request))) = None
   \<and> \<not> deleteMissingSignalsNotFound ex_env
   \<and> fst (totp_destroy ex_env ex_request ex_world_pending) = Reply EmptyBody
   \<and> fst (totp_destroy ex_env ex_request (snd (totp_destroy ex_env ex_request ex_world_pending)))
       = Reply EmptyBody
   \<and> totp (snd (totp_destroy ex_env ex_request ex_world_pending)) ''u1'' = None"
proof -
  have h: "\<not> truthy (tokenVerificationId (credentials ex_request))"
    by (simp add: example_defs truthy_def)
  have c: "customs_check ex_env ex_request ''totpDestroy'' = None"
    by (simp add: example_defs)
  have f: "db_fault ex_env (DbDeleteTotpToken (uid (credentials ex_request))) = None"
    "\<not> deleteMissingSignalsNotFound ex_env"
    "uid (credentials ex_request) = ''u1''"
    by (simp_all add: example_defs)
  show ?thesis
    using h c f destroy_returns_what_the_store_signals[OF h c, of ex_world_pending]
    by simp
qed

text \<open>
  Claim C6 as stated fails when the Token Store signals not-found for an absent token:
  the second of two Destroy calls, and a Destroy with no TotpToken stored, reply the
  not-found failure to the caller.
\<close>

theorem destroy_twice_reports_not_found:
  "\<not> truthy (tokenVerificationId (credentials ex_request))
   \<and> fst (totp_destroy ex_env_strict_delete ex_request ex_world_pending) = Reply EmptyBody
   \<and> fst (totp_destroy ex_env_strict_delete ex_request
            (snd (totp_destroy ex_env_strict_delete ex_request ex_world_pending)))
       = ReplyError TotpTokenNotFound
   \<and> fst (totp_destroy ex_env_strict_delete ex_request ex_world) = ReplyError TotpTokenNotFound"
  by (simp add: example_defs route_defs promise_defs store_defs truthy_def Let_def)

section \<open>Credential resolution\<close>

lemmas credential_defs = getCredentialsFunc_def makeCredentialFn_def expired_def
  db_pruneSessionTokens_def record_event_def

lemma expired_session_token:
  assumes "HEX_STRING_test e ident"
    and "db_token e s ident = Inr tok"
    and "expiresAt tok = Some t" and "t < now"
    and "tokenTypeID tok = ''sessionToken''"
  shows "getCredentialsFunc e s now ident w =
           (Cb (Some (InvalidToken ''The authentication token has expired'')) None,
            w\<lparr>trace := trace w @ [LogTrace ''DB.getToken'' ident,
                                  DbPruneSessionTokens (uid tok) [tokenId tok]]\<rparr>)"
  using assms by (simp add: credential_defs Let_def split: option.splits)

lemma expired_other_token:
  assumes "HEX_STRING_test e ident"
    and "db_token e s ident = Inr tok"
    and "expiresAt tok = Some t" and "t < now"
    and "tokenTypeID tok \<noteq> ''sessionToken''"
  shows "getCredentialsFunc e s now ident w =
           (Cb (Some (InvalidToken ''The authentication token has expired'')) None,
            w\<lparr>trace := trace w @ [LogTrace ''DB.getToken'' ident]\<rparr>)"
  using assms by (simp add: credential_defs Let_def)

text \<open>
  Claim C7. For a well-formed id that the store resolves to a token whose expiry time is
  before the current time, credential resolution calls back with the invalid-token failure
  that says the token has expired. When the token's type is \<open>sessionToken\<close> it first asks
  the store to prune that token for its user, and the failure is the same whether the
  pruning succeeds or fails; a token of any other type is not pruned. The TOTP table and
  the verified sessions are left as they were.
\<close>

theorem expired_token_is_rejected_after_pruning:
  assumes well_formed: "HEX_STRING_test e ident"
    and found: "db_token e s ident = Inr tok"
    and expiry: "expiresAt tok = Some t" and past: "t < now"
  shows
    "fst (getCredentialsFunc e s now ident w)
       = Cb (Some (InvalidToken ''The authentication token has expired'')) None
     \<and> new_events w (snd (getCredentialsFunc e s now ident w)) =
         LogTrace ''DB.getToken'' ident #
         (if tokenTypeID tok = ''sessionToken''
          then [DbPruneSessionTokens (uid tok) [tokenId tok]] else [])
     \<and> totp (snd (getCredentialsFunc e s now ident w)) = totp w
     \<and> verifiedSessions (snd (getCredentialsFunc e s now ident w)) = verifiedSessions w"
proof (cases "tokenTypeID tok = ''sessionToken''")
  case True
  show ?thesis
    by (simp add: expired_session_token[OF assms True] True new_events_def)
next
  case False
  show ?thesis
    by (simp add: expired_other_token[OF assms False] False new_events_def)
qed

theorem expired_token_is_rejected_after_pruning_witness:
  "HEX_STRING_test ex_env_prune_fails ''a1b2c3d4''
   \<and> db_token ex_env_prune_fails SessionTokenStrategy ''a1b2c3d4'' = Inr ex_session
   \<and> db_token ex_env_prune_fails KeyFetchTokenStrategy ''0badcafe'' = Inr ex_keyFetchToken
   \<and> expiresAt ex_session = Some 1000 \<and> (1000::int) < 2000
   \<and> db_fault ex_env_prune_fails (DbPruneSessionTokens ''u1'' [''a1b2c3d4''])
       = Some (OtherError ''store unreachable'')
   \<and> fst (getCredentialsFunc ex_env_prune_fails SessionTokenStrategy 2000 ''a1b2c3d4'' ex_world)
       = Cb (Some (InvalidToken ''The authentication token has expired'')) None
   \<and> new_events ex_world
        (snd (getCredentialsFunc ex_env_prune_fails SessionTokenStrategy 2000 ''a1b2c3d4'' ex_world))
       = [LogTrace ''DB.getToken'' ''a1b2c3d4'', DbPruneSessionTokens ''u1'' [''a1b2c3d4'']]
   \<and> new_events ex_world
        (snd (getCredentialsFunc ex_env_prune_fails KeyFetchTokenStrategy 2000 ''0badcafe'' ex_world))
       = [LogTrace ''DB.getToken'' ''0badcafe'']"
proof -
  have h1: "HEX_STRING_test ex_env_prune_fails ''a1b2c3d4''"
    and h1': "HEX_STRING_test ex_env_prune_fails ''0badcafe''"
    by (simp_all add: example_defs ex_env_prune_fails_def)
  have h2: "db_token ex_env_prune_fails SessionTokenStrategy ''a1b2c3d4'' = Inr ex_session"
    and h2': "db_token ex_env_prune_fails KeyFetchTokenStrategy ''0badcafe'' = Inr ex_keyFetchToken"
    by (simp_all add: ex_env_def ex_env_prune_fails_def)
  have h3: "expiresAt ex_session = Some 1000"
    and h3': "expiresAt ex_keyFetchToken = Some 1000"
    by (simp_all add: example_defs)
  have h4: "(1000::int) < 2000" by simp
  have f: "db_fault ex_env_prune_fails (DbPruneSessionTokens ''u1'' [''a1b2c3d4''])
             = Some (OtherError ''store unreachable'')"
    by (simp add: ex_env_prune_fails_def)
  have k: "tokenTypeID ex_session = ''sessionToken''" "uid ex_session = ''u1''"
    "tokenId ex_session = ''a1b2c3d4''" "tokenTypeID ex_keyFetchToken \<noteq> ''sessionToken''"
    by (simp_all add: example_defs)
  show ?thesis
    using h1 h2 h2' h3 h4 f k
      expired_token_is_rejected_after_pruning[OF h1 h2 h3 h4, of ex_world]
      expired_token_is_rejected_after_pruning[OF h1' h2' h3' h4, of ex_world]
    by simp
qed

text \<open>
  Claim C8, amended. For every strategy-bound store accessor: a malformed id never
  surfaces a format error, it calls back with no error and no credentials (credentials not
  found); an id the store cannot resolve calls back with the store's own failure,
  unchanged; a token that is present but expired calls back with the invalid-token failure
  whose message says that the token has expired; any other token is the resolved
  principal. In the first, second and last case the only call recorded is the log line
  of the lookup.
\<close>

theorem credential_failures_by_case:
  "(\<not> HEX_STRING_test e ident \<longrightarrow>
      getCredentialsFunc e s now ident w =
        (Cb None None, w\<lparr>trace := trace w @ [LogTrace ''DB.getToken'' ident]\<rparr>))
   \<and> (\<forall>err. HEX_STRING_test e ident \<and> db_token e s ident = Inl err \<longrightarrow>
      getCredentialsFunc e s now ident w =
        (Cb (Some err) None, w\<lparr>trace := trace w @ [LogTrace ''DB.getToken'' ident]\<rparr>))
   \<and> (\<forall>tok. HEX_STRING_test e ident \<and> db_token e s ident = Inr tok \<and> expired tok now \<longrightarrow>
      fst (getCredentialsFunc e s now ident w) =
        Cb (Some (InvalidToken ''The authentication token has expired'')) None)
   \<and> (\<forall>tok. HEX_STRING_test e ident \<and> db_token e s ident = Inr tok \<and> \<not> expired tok now \<longrightarrow>
      getCredentialsFunc e s now ident w =
        (Cb None (Some tok), w\<lparr>trace := trace w @ [LogTrace ''DB.getToken'' ident]\<rparr>))"
  by (simp add: getCredentialsFunc_def makeCredentialFn_def db_pruneSessionTokens_def
      record_event_def Let_def split: option.splits)

theorem credential_failures_by_case_witness:
  "\<not> HEX_STRING_test ex_env ''a1b2c3dz''
   \<and> HEX_STRING_test ex_env ''00000000''
   \<and> db_token ex_env AccountResetTokenStrategy ''00000000'' = Inl (OtherError ''no such token'')
   \<and> fst (getCredentialsFunc ex_env AccountResetTokenStrategy 2000 ''a1b2c3dz'' ex_world)
       = Cb None None
   \<and> fst (getCredentialsFunc ex_env AccountResetTokenStrategy 2000 ''00000000'' ex_world)
       = Cb (Some (OtherError ''no such token'')) None
   \<and> fst (getCredentialsFunc ex_env SessionTokenStrategy 2000 ''a1b2c3d4'' ex_world)
       = Cb (Some (InvalidToken ''The authentication token has expired'')) None
   \<and> fst (getCredentialsFunc ex_env SessionTokenStrategy 500 ''a1b2c3d4'' ex_world)
       = Cb None (Some ex_session)"
proof -
  have m: "\<not> HEX_STRING_test ex_env ''a1b2c3dz''"
    and h: "HEX_STRING_test ex_env ''00000000''" "HEX_STRING_test ex_env ''a1b2c3d4''"
    and n: "db_token ex_env AccountResetTokenStrategy ''00000000'' = Inl (OtherError ''no such token'')"
    and f: "db_token ex_env SessionTokenStrategy ''a1b2c3d4'' = Inr ex_session"
    and x: "expired ex_session 2000" "\<not> expired ex_session 500"
    by (simp_all add: example_defs expired_def)
  show ?thesis
    using m h n f x
      credential_failures_by_case[of ex_env "''a1b2c3dz''" AccountResetTokenStrategy 2000 ex_world]
      credential_failures_by_case[of ex_env "''00000000''" AccountResetTokenStrategy 2000 ex_world]
      credential_failures_by_case[of ex_env "''a1b2c3d4''" SessionTokenStrategy 2000 ex_world]
      credential_failures_by_case[of ex_env "''a1b2c3d4''" SessionTokenStrategy 500 ex_world]
    by simp
qed

text \<open>
  Claim C8 as stated fails: a malformed id and an expired token do not yield the same
  failure. The first calls back without an error, the second with an error that names the
  expiry.
\<close>

theorem malformed_and_expired_are_told_apart:
  "\<not> HEX_STRING_test ex_env ''a1b2c3dz''
   \<and> fst (getCredentialsFunc ex_env SessionTokenStrategy 2000 ''a1b2c3dz'' ex_world) = Cb None None
   \<and> fst (getCredentialsFunc ex_env SessionTokenStrategy 2000 ''a1b2c3d4'' ex_world)
       = Cb (Some (InvalidToken ''The authentication token has expired'')) None
   \<and> fst (getCredentialsFunc ex_env SessionTokenStrategy 2000 ''a1b2c3dz'' ex_world)
       \<noteq> fst (getCredentialsFunc ex_env SessionTokenStrategy 2000 ''a1b2c3d4'' ex_world)"
  by (simp add: example_defs credential_defs Let_def)

section \<open>The assertion bundle\<close>





section \<open>The nonce check\<close>

text \<open>
  Claim C10. For every key identifier, nonce and timestamp the nonce check calls its
  continuation without an error, and so does a second check with the same key and nonce:
  nothing is remembered between checks. Its only effect is the log line with the observed
  clock skew.
\<close>

theorem nonceCheck_never_rejects:
  "fst (nonceCheck key nonce ts now w) = None
   \<and> fst (nonceCheck key nonce ts' now' (snd (nonceCheck key nonce ts now w))) = None
   \<and> totp (snd (nonceCheck key nonce ts now w)) = totp w
   \<and> verifiedSessions (snd (nonceCheck key nonce ts now w)) = verifiedSessions w
   \<and> new_events w (snd (nonceCheck key nonce ts now w)) =
        [LogSkew (case ts of None \<Rightarrow> None | Some t \<Rightarrow> Some (of_int now / 1000 - t))]"
  by (simp add: nonceCheck_def record_event_def new_events_def Let_def)

end
